theory Spec2Isabelle
  imports Main
begin

section \<open>Data model of package fetch\<close>

text \<open>
  The embedding follows \<^verbatim>\<open>pkg/fetch/fetch.go\<close>. The two functions of the package,
  \<^verbatim>\<open>Fetch\<close> and \<^verbatim>\<open>fetchHTTP\<close>, work on the local file system and on the network; both are
  made explicit: a function takes the \<^emph>\<open>world\<close> it runs in and returns its result together
  with the world it leaves behind. A Go result \<^verbatim>\<open>(string, error)\<close> is a value of
  \<open>error + string\<close>, \<open>Inl\<close> carrying the error.
\<close>

text \<open>\<^verbatim>\<open>type Options struct\<close>; a \<^verbatim>\<open>*Options\<close> is an \<open>Options option\<close>, \<open>None\<close> for nil.\<close>

record Options =
  Destination :: string
  Progress :: bool

text \<open>The fields of \<^verbatim>\<open>url.URL\<close> that the package reads, and the host to tell servers apart.\<close>

record url =
  Scheme :: string
  Host :: string
  Path :: string

text \<open>
  The errors of the package. In Go they are error values told apart by their message;
  \<open>UnexpectedStatus\<close> is \<^verbatim>\<open>"expected 200 instead got %v at %v"\<close> with its two arguments,
  \<open>UnknownScheme\<close> is \<^verbatim>\<open>"unknown URL scheme: %s"\<close> with its argument.
\<close>

datatype error =
    MissingDestination
  | ParseError string
  | UnknownScheme string
  | RequestError
  | NetworkError
  | TooManyRedirects
  | UnexpectedStatus int url
  | CreateError string
  | ReadError
  | WriteError
  | RenameError string string

text \<open>
  A response as \<^verbatim>\<open>fetchHTTP\<close> uses it: the status code, the declared length, and the body
  as the chunks that successive reads deliver; \<open>BodyFails\<close> says that the read after the
  last chunk reports an error instead of the end of the stream.
\<close>

record response =
  StatusCode :: int
  ContentLength :: int
  Body :: "string list"
  BodyFails :: bool

text \<open>What one round trip of the HTTP client gives: a transport error, a redirect to a
  resolved location, or a response that is not followed further.\<close>

datatype round_trip = Failed | Redirect url | Terminal response

text \<open>The file system maps a path to a directory or to a file with content and modification
  time. Paths are compared as strings.\<close>

datatype node = Dir | File string nat

datatype bar_event = Start int | Add nat | Finish

text \<open>
  The world: the files, a clock that stamps every change of the file system, the file
  systems that were observable before each change (oldest first), the requests sent over
  the network, the number of body bytes read from the network, and what the progress bar
  was told.
\<close>

record world =
  files :: "string \<Rightarrow> node option"
  clock :: nat
  past :: "(string \<Rightarrow> node option) list"
  sent :: "url list"
  streamed :: nat
  bar :: "bar_event list"

text \<open>
  What the package takes from outside this repository, as parameters: the parser and
  printer of \<^verbatim>\<open>net/url\<close>, \<^verbatim>\<open>filepath.Base\<close> and \<^verbatim>\<open>filepath.Join\<close> (which depend on the
  operating system), the network (the answer to a request may depend on the requests sent
  before it), and the reasons for which the operating system refuses to create, extend or
  rename a file (\<open>disk_free\<close> is the number of bytes that can still be written, \<open>None\<close> for
  no limit).
\<close>

record env =
  url_Parse :: "string \<Rightarrow> url option"
  url_String :: "url \<Rightarrow> string"
  filepath_Base :: "string \<Rightarrow> string"
  filepath_Join :: "string \<Rightarrow> string \<Rightarrow> string"
  RoundTrip :: "url list \<Rightarrow> url \<Rightarrow> round_trip"
  create_denied :: "string \<Rightarrow> bool"
  rename_denied :: "string \<Rightarrow> string \<Rightarrow> bool"
  disk_free :: "nat option"

section \<open>File system primitives\<close>

text \<open>\<^verbatim>\<open>dry.FileExists\<close> is true of anything \<^verbatim>\<open>os.Stat\<close> finds, \<^verbatim>\<open>dry.FileIsDir\<close> of directories.\<close>

definition FileExists :: "world \<Rightarrow> string \<Rightarrow> bool" where
  "FileExists w name = (files w name \<noteq> None)"

definition FileIsDir :: "world \<Rightarrow> string \<Rightarrow> bool" where
  "FileIsDir w name = (files w name = Some Dir)"

text \<open>Every change of the file system goes through \<open>fs_update\<close>, which keeps the state it
  replaces in \<open>past\<close> and advances the clock.\<close>

definition fs_update :: "(string \<Rightarrow> node option) \<Rightarrow> world \<Rightarrow> world" where
  "fs_update f w = w\<lparr>files := f, past := past w @ [files w], clock := Suc (clock w)\<rparr>"

text \<open>\<^verbatim>\<open>os.Create\<close>: an empty file, truncating one that exists; fails on a directory.\<close>

definition os_Create :: "env \<Rightarrow> string \<Rightarrow> world \<Rightarrow> world option" where
  "os_Create env name w =
     (if create_denied env name \<or> FileIsDir w name then None
      else Some (fs_update ((files w)(name \<mapsto> File [] (clock w))) w))"

text \<open>\<^verbatim>\<open>(*os.File).Write\<close> on the file created at \<open>name\<close>: appends what fits on the disk and
  reports whether all of it did.\<close>

definition file_Write :: "string \<Rightarrow> string \<Rightarrow> nat option \<Rightarrow> world \<Rightarrow> bool \<times> world" where
  "file_Write name data free w =
     (let n = (case free of None \<Rightarrow> length data | Some k \<Rightarrow> min k (length data));
          old = (case files w name of Some (File c t) \<Rightarrow> c | _ \<Rightarrow> [])
      in (n = length data,
          fs_update ((files w)(name \<mapsto> File (old @ take n data) (clock w))) w))"

text \<open>\<^verbatim>\<open>os.Rename\<close>: the node moves from the old path to the new one.\<close>

definition os_Rename :: "env \<Rightarrow> string \<Rightarrow> string \<Rightarrow> world \<Rightarrow> world option" where
  "os_Rename env oldpath newpath w =
     (if rename_denied env oldpath newpath \<or> files w oldpath = None \<or> FileIsDir w newpath
      then None
      else Some (fs_update ((files w)(oldpath := None, newpath := files w oldpath)) w))"

section \<open>The HTTP client\<close>

text \<open>
  The \<^verbatim>\<open>CheckRedirect\<close> hook that \<^verbatim>\<open>fetchHTTP\<close> installs (lines 89 to 97): \<open>via\<close> holds the
  requests made so far, \<open>req\<close> is the request about to be made. It refuses when ten
  requests were made and otherwise stores the upcoming URL in \<^verbatim>\<open>lastLocation\<close>; the
  result is the new value of that variable.
\<close>

definition CheckRedirect :: "url \<Rightarrow> url list \<Rightarrow> error + url option" where
  "CheckRedirect req via =
     (if length via \<ge> 10 then Inl TooManyRedirects else Inr (Some req))"

text \<open>
  \<^verbatim>\<open>httpClient.Do\<close> with that hook: send the request; on a redirect ask the hook with the
  requests made so far and go on with the new location. The loop ends because the hook
  refuses an eleventh request. \<^verbatim>\<open>NewClient\<close> is not among the sources of the package at
  hand; the client it returns is taken to be a \<^verbatim>\<open>net/http\<close> client, whose transport is the
  parameter \<open>RoundTrip\<close> and whose redirect hook is the one above, since \<^verbatim>\<open>fetchHTTP\<close>
  overwrites it.
\<close>

function client_loop ::
  "env \<Rightarrow> url \<Rightarrow> url list \<Rightarrow> url option \<Rightarrow> world \<Rightarrow> (error + response \<times> url option) \<times> world"
where
  "client_loop env req via lastLocation w =
     (let w1 = w\<lparr>sent := sent w @ [req]\<rparr>; reqs = via @ [req] in
      case RoundTrip env (sent w) req of
        Failed \<Rightarrow> (Inl NetworkError, w1)
      | Terminal resp \<Rightarrow> (Inr (resp, lastLocation), w1)
      | Redirect loc \<Rightarrow>
          (case CheckRedirect loc reqs of
             Inl e \<Rightarrow> (Inl e, w1)
           | Inr lastLocation1 \<Rightarrow> client_loop env loc reqs lastLocation1 w1))"
  by pat_completeness auto
termination
  by (relation "measure (\<lambda>(env, req, via, lastLocation, w). 10 - length via)")
     (auto simp: CheckRedirect_def split: if_splits)

declare client_loop.simps [simp del]

text \<open>\<^verbatim>\<open>var lastLocation *url.URL\<close> starts as nil.\<close>

definition client_Do :: "env \<Rightarrow> url \<Rightarrow> world \<Rightarrow> (error + response \<times> url option) \<times> world" where
  "client_Do env req w = client_loop env req [] None w"

text \<open>\<^verbatim>\<open>http.NewRequest("GET", resource.String(), nil)\<close> parses the printed URL again.\<close>

definition http_NewRequest :: "env \<Rightarrow> url \<Rightarrow> url option" where
  "http_NewRequest env resource = url_Parse env (url_String env resource)"

section \<open>fetchHTTP\<close>

text \<open>\<^verbatim>\<open>io.Copy\<close> from the response body to the temporary file, and to the progress bar
  when there is one (the \<^verbatim>\<open>io.MultiWriter\<close> writes to the file first).\<close>

fun io_Copy :: "bool \<Rightarrow> string \<Rightarrow> string list \<Rightarrow> bool \<Rightarrow> nat option \<Rightarrow> world \<Rightarrow> error option \<times> world" where
  "io_Copy progress name [] fails free w = (if fails then Some ReadError else None, w)"
| "io_Copy progress name (c # cs) fails free w =
     (case file_Write name c free (w\<lparr>streamed := streamed w + length c\<rparr>) of
        (False, w1) \<Rightarrow> (Some WriteError, w1)
      | (True, w1) \<Rightarrow>
          io_Copy progress name cs fails (map_option (\<lambda>k. k - length c) free)
            (if progress then w1\<lparr>bar := bar w1 @ [Add (length c)]\<rparr> else w1))"

text \<open>Lines 109 to 117: the final destination path.\<close>

definition final_destination :: "env \<Rightarrow> world \<Rightarrow> Options \<Rightarrow> url \<Rightarrow> url option \<Rightarrow> string" where
  "final_destination env w options resource lastLocation =
     (let dest = Destination options in
      if FileIsDir w dest then
        (case lastLocation of
           None \<Rightarrow> filepath_Join env dest (filepath_Base env (Path resource))
         | Some loc \<Rightarrow> filepath_Join env dest (filepath_Base env (Path loc)))
      else dest)"

text \<open>The deferred \<^verbatim>\<open>progressBar.Finish()\<close>.\<close>

definition bar_Finish :: "Options \<Rightarrow> world \<Rightarrow> world" where
  "bar_Finish options w = (if Progress options then w\<lparr>bar := bar w @ [Finish]\<rparr> else w)"

text \<open>Lines 124 to 157: fetch to the temporary file, then move it to its definitive place.\<close>

definition download :: "env \<Rightarrow> Options \<Rightarrow> response \<Rightarrow> string \<Rightarrow> world \<Rightarrow> (error + string) \<times> world" where
  "download env options resp dest w =
     (let destTmp = dest @ ''.download'' in
      case os_Create env destTmp w of
        None \<Rightarrow> (Inl (CreateError destTmp), w)
      | Some w1 \<Rightarrow>
          (let w2 = (if Progress options then w1\<lparr>bar := bar w1 @ [Start (ContentLength resp)]\<rparr>
                     else w1)
           in case io_Copy (Progress options) destTmp (Body resp) (BodyFails resp) (disk_free env) w2 of
                (Some e, w3) \<Rightarrow> (Inl e, bar_Finish options w3)
              | (None, w3) \<Rightarrow>
                  (case os_Rename env destTmp dest w3 of
                     None \<Rightarrow> (Inl (RenameError destTmp dest), bar_Finish options w3)
                   | Some w4 \<Rightarrow> (Inr dest, bar_Finish options w4))))"

definition fetchHTTP :: "env \<Rightarrow> url \<Rightarrow> Options option \<Rightarrow> world \<Rightarrow> (error + string) \<times> world" where
  "fetchHTTP env resource options w =
     (let options1 = (case options of None \<Rightarrow> \<lparr>Destination = [], Progress = False\<rparr> | Some opts \<Rightarrow> opts) in
      case http_NewRequest env resource of
        None \<Rightarrow> (Inl RequestError, w)
      | Some req \<Rightarrow>
          (case client_Do env req w of
             (Inl e, w1) \<Rightarrow> (Inl e, w1)
           | (Inr (resp, lastLocation), w1) \<Rightarrow>
               if StatusCode resp \<noteq> 200
               then (Inl (UnexpectedStatus (StatusCode resp) resource), w1)
               else (let dest = final_destination env w1 options1 resource lastLocation in
                     if FileExists w1 dest then (Inr dest, w1)
                     else download env options1 resp dest w1)))"

section \<open>Fetch\<close>

definition Fetch :: "env \<Rightarrow> string \<Rightarrow> Options option \<Rightarrow> world \<Rightarrow> (error + string) \<times> world" where
  "Fetch env resource options w =
     (if FileExists w resource then (Inr resource, w)
      else
        (let options1 = (case options of None \<Rightarrow> \<lparr>Destination = [], Progress = False\<rparr> | Some opts \<Rightarrow> opts) in
         if Destination options1 = [] then (Inl MissingDestination, w)
         else
           (case url_Parse env resource of
              None \<Rightarrow> (Inl (ParseError resource), w)
            | Some parsedURL \<Rightarrow>
                if Scheme parsedURL = ''file'' then (Inr (Path parsedURL), w)
                else if Scheme parsedURL = ''http'' \<or> Scheme parsedURL = ''https''
                then fetchHTTP env parsedURL (Some options1) w
                else (Inl (UnknownScheme (Scheme parsedURL)), w))))"

section \<open>Notions used to state the properties\<close>

text \<open>
  The locations of the redirects that follow a request to \<open>u\<close>, at most \<open>n\<close> of them, when
  the requests in \<open>hist\<close> were sent before: the redirect chain of the request.
\<close>

fun redirect_targets :: "env \<Rightarrow> nat \<Rightarrow> url list \<Rightarrow> url \<Rightarrow> url list" where
  "redirect_targets env 0 hist u = []"
| "redirect_targets env (Suc n) hist u =
     (case RoundTrip env hist u of
        Redirect loc \<Rightarrow> loc # redirect_targets env n (hist @ [u]) loc
      | _ \<Rightarrow> [])"

text \<open>The file systems that were observable from the start of a call that takes \<open>w\<close> to \<open>w'\<close>
  until just before its last change.\<close>

definition during :: "world \<Rightarrow> world \<Rightarrow> (string \<Rightarrow> node option) list" where
  "during w w' = drop (length (past w)) (past w')"

text \<open>A call from \<open>w\<close> to \<open>w'\<close> changed the file system at the path \<open>name\<close> only, at every moment.\<close>

definition touches_only :: "string \<Rightarrow> world \<Rightarrow> world \<Rightarrow> bool" where
  "touches_only name w w' =
     (\<exists>xs. past w' = past w @ xs \<and>
        (\<forall>s \<in> set (xs @ [files w']). \<forall>p. p \<noteq> name \<longrightarrow> s p = files w p))"

section \<open>A sample environment\<close>

text \<open>
  A small environment to run the functions in. \<open>sample_Parse\<close> splits a plain URL into
  scheme, host and path as \<^verbatim>\<open>url.Parse\<close> does for URLs without query, fragment, user or
  escapes, and rejects a percent sign; \<open>sample_Base\<close> is \<^verbatim>\<open>filepath.Base\<close> with the
  separator \<^verbatim>\<open>/\<close>; \<open>sample_Join\<close> joins two clean elements.
\<close>

definition sample_Parse :: "string \<Rightarrow> url option" where
  "sample_Parse s =
     (if CHR ''%'' \<in> set s then None
      else
        (let colon = (CHR '':'' \<in> set (takeWhile (\<lambda>c. c \<noteq> CHR ''/'') s));
             scheme = (if colon then takeWhile (\<lambda>c. c \<noteq> CHR '':'') s else []);
             rest = (if colon then tl (dropWhile (\<lambda>c. c \<noteq> CHR '':'') s) else s)
         in if take 2 rest = ''//''
            then Some \<lparr>Scheme = scheme,
                       Host = takeWhile (\<lambda>c. c \<noteq> CHR ''/'') (drop 2 rest),
                       Path = dropWhile (\<lambda>c. c \<noteq> CHR ''/'') (drop 2 rest)\<rparr>
            else if scheme \<noteq> [] \<and> take 1 rest \<noteq> ''/''
            then Some \<lparr>Scheme = scheme, Host = [], Path = []\<rparr>
            else Some \<lparr>Scheme = scheme, Host = [], Path = rest\<rparr>))"

definition sample_String :: "url \<Rightarrow> string" where
  "sample_String u = (if Scheme u = [] then Path u else Scheme u @ ''://'' @ Host u @ Path u)"

definition sample_Base :: "string \<Rightarrow> string" where
  "sample_Base p =
     (if p = [] then ''.''
      else (let q = dropWhile (\<lambda>c. c = CHR ''/'') (rev p) in
            if q = [] then ''/'' else rev (takeWhile (\<lambda>c. c \<noteq> CHR ''/'') q)))"

definition sample_Join :: "string \<Rightarrow> string \<Rightarrow> string" where
  "sample_Join dir name = dir @ ''/'' @ name"

text \<open>The URL \<^verbatim>\<open>http://host/path\<close>.\<close>

definition sample_url :: "string \<Rightarrow> string \<Rightarrow> url" where
  "sample_url host path = \<lparr>Scheme = ''http'', Host = host, Path = path\<rparr>"

text \<open>
  The sample network: host \<^verbatim>\<open>a\<close> redirects to \<^verbatim>\<open>http://b/y.exe\<close>, host \<^verbatim>\<open>b\<close> serves five
  bytes in two chunks, host \<^verbatim>\<open>loop\<close> redirects to itself, host \<^verbatim>\<open>cut\<close> breaks the
  connection after two of five bytes, host \<^verbatim>\<open>down\<close> is unreachable, host \<^verbatim>\<open>part\<close> answers
  206, and every other host answers 404.
\<close>

definition sample_RoundTrip :: "url list \<Rightarrow> url \<Rightarrow> round_trip" where
  "sample_RoundTrip hist u =
     (if Host u = ''a'' then Redirect (sample_url ''b'' ''/y.exe'')
      else if Host u = ''b''
      then Terminal \<lparr>StatusCode = 200, ContentLength = 5, Body = [''he'', ''llo''], BodyFails = False\<rparr>
      else if Host u = ''loop'' then Redirect u
      else if Host u = ''cut''
      then Terminal \<lparr>StatusCode = 200, ContentLength = 5, Body = [''he''], BodyFails = True\<rparr>
      else if Host u = ''down'' then Failed
      else if Host u = ''part''
      then Terminal \<lparr>StatusCode = 206, ContentLength = 2, Body = [''he''], BodyFails = False\<rparr>
      else Terminal \<lparr>StatusCode = 404, ContentLength = 0, Body = [], BodyFails = False\<rparr>)"

definition sample_env :: env where
  "sample_env =
     \<lparr>url_Parse = sample_Parse, url_String = sample_String,
      filepath_Base = sample_Base, filepath_Join = sample_Join,
      RoundTrip = sample_RoundTrip,
      create_denied = (\<lambda>name. False), rename_denied = (\<lambda>old new. False),
      disk_free = None\<rparr>"

text \<open>The same environment with room for three more bytes on the disk.\<close>

definition full_env :: env where
  "full_env = sample_env\<lparr>disk_free := Some 3\<rparr>"

text \<open>The sample world: a directory \<^verbatim>\<open>/tmp\<close> that holds \<^verbatim>\<open>setup.exe\<close> and a file whose name
  is not a URL.\<close>

definition sample_files :: "string \<Rightarrow> node option" where
  "sample_files =
     [''/tmp'' \<mapsto> Dir, ''/tmp/setup.exe'' \<mapsto> File ''MZ'' 3, ''/tmp/100%.exe'' \<mapsto> File ''MZ'' 5]"

definition sample_world :: world where
  "sample_world =
     \<lparr>files = sample_files, clock = 7, past = [], sent = [], streamed = 0, bar = []\<rparr>"


section \<open>The sample world\<close>

lemma sample_absent:
  "\<not> FileExists sample_world ''file:///tmp/x''"
  "\<not> FileExists sample_world ''foo/bar''"
  "\<not> FileExists sample_world ''http://a/x.exe''"
  by (simp_all add: FileExists_def sample_world_def sample_files_def)

lemma sample_present:
  "FileExists sample_world ''/tmp/100%.exe''"
  "FileExists sample_world ''/tmp/setup.exe''"
  by (simp_all add: FileExists_def sample_world_def sample_files_def)

lemma sample_parses:
  "url_Parse sample_env ''/tmp/100%.exe'' = None"
  "url_Parse sample_env ''foo/bar'' = Some \<lparr>Scheme = [], Host = [], Path = ''foo/bar''\<rparr>"
  "url_Parse sample_env ''file:///tmp/x'' = Some \<lparr>Scheme = ''file'', Host = [], Path = ''/tmp/x''\<rparr>"
  by (simp_all add: sample_env_def sample_Parse_def)

section \<open>The redirect loop\<close>

text \<open>The client changes nothing but the list of requests sent.\<close>

lemma client_loop_keeps:
  "client_loop env req via l w = (r, w') \<Longrightarrow>
   files w' = files w \<and> past w' = past w \<and> clock w' = clock w \<and>
   streamed w' = streamed w \<and> bar w' = bar w"
proof (induction env req via l w rule: client_loop.induct)
  case (1 env req via l w)
  show ?case
  proof (cases "RoundTrip env (sent w) req")
    case Failed
    with "1.prems" show ?thesis by (subst (asm) client_loop.simps) auto
  next
    case (Terminal resp)
    with "1.prems" show ?thesis by (subst (asm) client_loop.simps) auto
  next
    case (Redirect loc)
    show ?thesis
    proof (cases "CheckRedirect loc (via @ [req])")
      case (Inl e)
      with Redirect "1.prems" show ?thesis by (subst (asm) client_loop.simps) auto
    next
      case (Inr l1)
      with Redirect "1.prems"
      have "client_loop env loc (via @ [req]) l1 (w\<lparr>sent := sent w @ [req]\<rparr>) = (r, w')"
        by (subst (asm) client_loop.simps) simp
      from "1.IH" [OF refl refl Redirect Inr this] show ?thesis by simp
    qed
  qed
qed

lemma client_Do_keeps:
  "client_Do env req w = (r, w') \<Longrightarrow>
   files w' = files w \<and> past w' = past w \<and> clock w' = clock w \<and>
   streamed w' = streamed w \<and> bar w' = bar w"
  unfolding client_Do_def by (rule client_loop_keeps)

lemma client_loop_too_many:
  "length via + m = 10 \<Longrightarrow> 0 < m \<Longrightarrow>
   length (redirect_targets env m (sent w) req) = m \<Longrightarrow>
   \<exists>w'. client_loop env req via l w = (Inl TooManyRedirects, w')"
proof (induction m arbitrary: req via l w)
  case 0
  then show ?case by simp
next
  case (Suc m)
  from Suc.prems(3) obtain loc where rt: "RoundTrip env (sent w) req = Redirect loc"
    and len: "length (redirect_targets env m (sent w @ [req]) loc) = m"
    by (auto split: round_trip.splits)
  show ?case
  proof (cases "m = 0")
    case True
    with Suc.prems(1) have "length (via @ [req]) = 10" by simp
    with rt show ?thesis
      by (subst client_loop.simps) (simp add: CheckRedirect_def)
  next
    case False
    with Suc.prems(1) have chk: "CheckRedirect loc (via @ [req]) = Inr (Some loc)"
      by (simp add: CheckRedirect_def)
    from Suc.prems(1) have "length (via @ [req]) + m = 10" by simp
    from Suc.IH [OF this, of "w\<lparr>sent := sent w @ [req]\<rparr>" loc "Some loc"] False len
    obtain w' where
      "client_loop env loc (via @ [req]) (Some loc) (w\<lparr>sent := sent w @ [req]\<rparr>) = (Inl TooManyRedirects, w')"
      by auto
    with rt chk show ?thesis
      by (subst client_loop.simps) simp
  qed
qed

lemma client_loop_result:
  "length via + m = 10 \<Longrightarrow> 0 < m \<Longrightarrow>
   client_loop env req via l w = (Inr (resp, l'), w') \<Longrightarrow>
   chain = redirect_targets env m (sent w) req \<Longrightarrow>
   length chain < m \<and>
   RoundTrip env (sent w @ butlast (req # chain)) (last (req # chain)) = Terminal resp \<and>
   l' = (if chain = [] then l else Some (last chain)) \<and>
   w' = w\<lparr>sent := sent w @ req # chain\<rparr>"
proof (induction m arbitrary: req via l w chain)
  case 0
  then show ?case by simp
next
  case (Suc m)
  show ?case
  proof (cases "RoundTrip env (sent w) req")
    case Failed
    with Suc.prems(3) show ?thesis by (subst (asm) client_loop.simps) simp
  next
    case (Terminal resp1)
    with Suc.prems(3,4) show ?thesis by (subst (asm) client_loop.simps) auto
  next
    case (Redirect loc)
    show ?thesis
    proof (cases "m = 0")
      case True
      with Suc.prems(1) have "length (via @ [req]) = 10" by simp
      with Redirect Suc.prems(3) show ?thesis
        by (subst (asm) client_loop.simps) (simp add: CheckRedirect_def)
    next
      case False
      with Suc.prems(1) have chk: "CheckRedirect loc (via @ [req]) = Inr (Some loc)"
        by (simp add: CheckRedirect_def)
      with Redirect Suc.prems(3)
      have run: "client_loop env loc (via @ [req]) (Some loc) (w\<lparr>sent := sent w @ [req]\<rparr>) = (Inr (resp, l'), w')"
        by (subst (asm) client_loop.simps) simp
      define rest where "rest = redirect_targets env m (sent w @ [req]) loc"
      from Suc.prems(1) have "length (via @ [req]) + m = 10" by simp
      from Suc.IH [OF this _ run, of rest] False rest_def
      have ih: "length rest < m"
        "RoundTrip env (sent w @ [req] @ butlast (loc # rest)) (last (loc # rest)) = Terminal resp"
        "l' = (if rest = [] then Some loc else Some (last rest))"
        "w' = w\<lparr>sent := sent w @ req # loc # rest\<rparr>"
        by simp_all
      from Suc.prems(4) Redirect rest_def have chain: "chain = loc # rest" by simp
      from ih show ?thesis unfolding chain by simp
    qed
  qed
qed

lemma client_loop_terminal:
  "length via + m = 10 \<Longrightarrow> 0 < m \<Longrightarrow>
   chain = redirect_targets env m (sent w) req \<Longrightarrow> length chain < m \<Longrightarrow>
   RoundTrip env (sent w @ butlast (req # chain)) (last (req # chain)) = Terminal resp \<Longrightarrow>
   client_loop env req via l w =
     (Inr (resp, if chain = [] then l else Some (last chain)), w\<lparr>sent := sent w @ req # chain\<rparr>)"
proof (induction m arbitrary: req via l w chain)
  case 0
  then show ?case by simp
next
  case (Suc m)
  show ?case
  proof (cases "RoundTrip env (sent w) req")
    case Failed
    with Suc.prems(3,5) show ?thesis by simp
  next
    case (Terminal resp1)
    with Suc.prems(3,5) show ?thesis by (subst client_loop.simps) simp
  next
    case (Redirect loc)
    define rest where "rest = redirect_targets env m (sent w @ [req]) loc"
    from Suc.prems(3) Redirect rest_def have chain: "chain = loc # rest" by simp
    with Suc.prems(4) have less: "length rest < m" by simp
    then have "m \<noteq> 0" by simp
    with Suc.prems(1) have chk: "CheckRedirect loc (via @ [req]) = Inr (Some loc)"
      by (simp add: CheckRedirect_def)
    from Suc.prems(1) have len: "length (via @ [req]) + m = 10" by simp
    from Suc.prems(5) chain
    have rt: "RoundTrip env (sent (w\<lparr>sent := sent w @ [req]\<rparr>) @ butlast (loc # rest)) (last (loc # rest)) = Terminal resp"
      by simp
    from less have pos: "0 < m" by simp
    have "client_loop env loc (via @ [req]) (Some loc) (w\<lparr>sent := sent w @ [req]\<rparr>) =
        (Inr (resp, if rest = [] then Some loc else Some (last rest)),
         w\<lparr>sent := sent w @ [req]\<rparr>\<lparr>sent := sent (w\<lparr>sent := sent w @ [req]\<rparr>) @ loc # rest\<rparr>)"
      by (rule Suc.IH [OF len pos _ less rt]) (simp add: rest_def)
    with Redirect chk show ?thesis unfolding chain
      by (subst client_loop.simps) simp
  qed
qed

section \<open>Runs in the sample world\<close>

lemma sample_requests:
  "http_NewRequest sample_env (sample_url ''a'' ''/x.exe'') = Some (sample_url ''a'' ''/x.exe'')"
  "http_NewRequest sample_env (sample_url ''b'' ''/setup.exe'') = Some (sample_url ''b'' ''/setup.exe'')"
  "http_NewRequest sample_env (sample_url ''loop'' ''/x.exe'') = Some (sample_url ''loop'' ''/x.exe'')"
  "http_NewRequest sample_env (sample_url ''part'' ''/x.exe'') = Some (sample_url ''part'' ''/x.exe'')"
  "http_NewRequest sample_env (sample_url ''gone'' ''/x.exe'') = Some (sample_url ''gone'' ''/x.exe'')"
  by (simp_all add: http_NewRequest_def sample_env_def sample_String_def sample_Parse_def sample_url_def)

lemma sample_sent [simp]: "sent sample_world = []" "RoundTrip sample_env = sample_RoundTrip"
  by (simp_all add: sample_world_def sample_env_def)

lemma sample_Do_part:
  "client_Do sample_env (sample_url ''part'' ''/x.exe'') sample_world =
     (Inr (\<lparr>StatusCode = 206, ContentLength = 2, Body = [''he''], BodyFails = False\<rparr>, None),
      sample_world\<lparr>sent := [sample_url ''part'' ''/x.exe'']\<rparr>)"
  by (simp add: client_Do_def client_loop.simps sample_RoundTrip_def sample_url_def)

lemma sample_Do_a:
  "client_Do sample_env (sample_url ''a'' ''/x.exe'') sample_world =
     (Inr (\<lparr>StatusCode = 200, ContentLength = 5, Body = [''he'', ''llo''], BodyFails = False\<rparr>,
           Some (sample_url ''b'' ''/y.exe'')),
      sample_world\<lparr>sent := [sample_url ''a'' ''/x.exe'', sample_url ''b'' ''/y.exe'']\<rparr>)"
  by (simp add: client_Do_def client_loop.simps sample_RoundTrip_def sample_url_def CheckRedirect_def)

lemma sample_Do_b:
  "client_Do sample_env (sample_url ''b'' ''/setup.exe'') sample_world =
     (Inr (\<lparr>StatusCode = 200, ContentLength = 5, Body = [''he'', ''llo''], BodyFails = False\<rparr>, None),
      sample_world\<lparr>sent := [sample_url ''b'' ''/setup.exe'']\<rparr>)"
  by (simp add: client_Do_def client_loop.simps sample_RoundTrip_def sample_url_def CheckRedirect_def)

lemma sample_chain_loop:
  "length (redirect_targets sample_env 10 [] (sample_url ''loop'' ''/x.exe'')) = 10"
  by code_simp

lemma sample_chain_a:
  "redirect_targets sample_env 10 [] (sample_url ''a'' ''/x.exe'') = [sample_url ''b'' ''/y.exe'']"
  by code_simp

lemma sample_dest:
  "final_destination sample_env sample_world \<lparr>Destination = ''/tmp'', Progress = True\<rparr>
     (sample_url ''b'' ''/setup.exe'') None = ''/tmp/setup.exe''"
  "final_destination sample_env sample_world \<lparr>Destination = ''/tmp'', Progress = True\<rparr>
     (sample_url ''a'' ''/x.exe'') (Some (sample_url ''b'' ''/y.exe'')) = ''/tmp/y.exe''"
  by (simp_all add: final_destination_def FileIsDir_def sample_world_def sample_files_def
      sample_env_def sample_Join_def sample_Base_def sample_url_def)

lemma sample_env_sel:
  "url_Parse sample_env = sample_Parse" "url_String sample_env = sample_String"
  "filepath_Base sample_env = sample_Base" "filepath_Join sample_env = sample_Join"
  "create_denied sample_env = (\<lambda>name. False)" "rename_denied sample_env = (\<lambda>old new. False)"
  "disk_free sample_env = None"
  "url_Parse full_env = sample_Parse" "url_String full_env = sample_String"
  "filepath_Base full_env = sample_Base" "filepath_Join full_env = sample_Join"
  "RoundTrip full_env = sample_RoundTrip"
  "create_denied full_env = (\<lambda>name. False)" "rename_denied full_env = (\<lambda>old new. False)"
  "disk_free full_env = Some 3"
  by (simp_all add: sample_env_def full_env_def)

lemma sample_world_sel:
  "files sample_world = sample_files" "clock sample_world = 7" "past sample_world = []"
  "streamed sample_world = 0" "bar sample_world = []"
  by (simp_all add: sample_world_def)

lemma sample_url_sel:
  "Scheme (sample_url host path) = ''http''" "Host (sample_url host path) = host"
  "Path (sample_url host path) = path"
  by (simp_all add: sample_url_def)

lemma sample_isdir: "FileIsDir sample_world ''/tmp''"
  by (simp add: FileIsDir_def sample_world_def sample_files_def)

lemma sample_absent_y: "\<not> FileExists sample_world ''/tmp/y.exe''"
  by (simp add: FileExists_def sample_world_def sample_files_def)

lemma sample_run_a:
  "fst (fetchHTTP sample_env (sample_url ''a'' ''/x.exe'')
         (Some \<lparr>Destination = ''/tmp'', Progress = True\<rparr>) sample_world) = Inr ''/tmp/y.exe''"
  by (simp add: fetchHTTP_def sample_requests sample_Do_a final_destination_def FileIsDir_def
      FileExists_def download_def os_Create_def os_Rename_def file_Write_def fs_update_def
      bar_Finish_def sample_env_sel sample_world_sel sample_files_def sample_Join_def
      sample_Base_def sample_url_sel Let_def)

lemma full_requests:
  "http_NewRequest full_env (sample_url ''a'' ''/x.exe'') = Some (sample_url ''a'' ''/x.exe'')"
  by (simp add: http_NewRequest_def sample_env_sel sample_String_def sample_Parse_def sample_url_def)

lemma full_Do_a:
  "client_Do full_env (sample_url ''a'' ''/x.exe'') sample_world =
     (Inr (\<lparr>StatusCode = 200, ContentLength = 5, Body = [''he'', ''llo''], BodyFails = False\<rparr>,
           Some (sample_url ''b'' ''/y.exe'')),
      sample_world\<lparr>sent := [sample_url ''a'' ''/x.exe'', sample_url ''b'' ''/y.exe'']\<rparr>)"
  by (simp add: client_Do_def client_loop.simps sample_env_sel sample_RoundTrip_def sample_url_def CheckRedirect_def)

lemma full_dest:
  "final_destination full_env sample_world \<lparr>Destination = ''/tmp'', Progress = True\<rparr>
     (sample_url ''a'' ''/x.exe'') (Some (sample_url ''b'' ''/y.exe'')) = ''/tmp/y.exe''"
  by (simp add: final_destination_def sample_isdir sample_env_sel sample_Join_def sample_Base_def sample_url_sel)

lemma full_run_a:
  "fst (fetchHTTP full_env (sample_url ''a'' ''/x.exe'')
         (Some \<lparr>Destination = ''/tmp'', Progress = True\<rparr>) sample_world) = Inl WriteError"
  "files (snd (fetchHTTP full_env (sample_url ''a'' ''/x.exe'')
         (Some \<lparr>Destination = ''/tmp'', Progress = True\<rparr>) sample_world)) ''/tmp/y.exe.download''
     = Some (File ''hel'' 9)"
  "files (snd (fetchHTTP full_env (sample_url ''a'' ''/x.exe'')
         (Some \<lparr>Destination = ''/tmp'', Progress = True\<rparr>) sample_world)) ''/tmp/y.exe'' = None"
  "map (\<lambda>s. (s ''/tmp/y.exe'', s ''/tmp/y.exe.download'')) (during sample_world
      (snd (fetchHTTP full_env (sample_url ''a'' ''/x.exe'')
         (Some \<lparr>Destination = ''/tmp'', Progress = True\<rparr>) sample_world)))
     = [(None, None), (None, Some (File [] 7)), (None, Some (File ''he'' 8))]"
  by (simp_all add: fetchHTTP_def full_requests full_Do_a final_destination_def FileIsDir_def
      FileExists_def download_def os_Create_def os_Rename_def file_Write_def fs_update_def
      bar_Finish_def sample_env_sel sample_world_sel sample_files_def sample_Join_def
      sample_Base_def sample_url_sel Let_def during_def)


section \<open>What a download does to the file system\<close>

text \<open>The client leaves the files alone, so the tests on the destination see the files
  of the caller.\<close>

lemma final_destination_files:
  "files w1 = files w \<Longrightarrow> final_destination env w1 = final_destination env w"
  by (rule ext)+ (simp add: final_destination_def FileIsDir_def)

lemma FileExists_files: "files w1 = files w \<Longrightarrow> FileExists w1 = FileExists w"
  by (rule ext) (simp add: FileExists_def)

lemma download_result:
  "download env opts resp dest w = (Inr p, w') \<Longrightarrow> p = dest"
  by (auto simp: download_def Let_def split: option.splits prod.splits)

lemma touches_only_refl: "files w' = files w \<Longrightarrow> past w' = past w \<Longrightarrow> touches_only name w w'"
  by (simp add: touches_only_def)

lemma touches_only_trans:
  assumes "touches_only name a b" and "touches_only name b c"
  shows "touches_only name a c"
proof -
  from assms(1) obtain xs where xs: "past b = past a @ xs"
    "\<forall>s \<in> set (xs @ [files b]). \<forall>p. p \<noteq> name \<longrightarrow> s p = files a p"
    unfolding touches_only_def by blast
  from assms(2) obtain ys where ys: "past c = past b @ ys"
    "\<forall>s \<in> set (ys @ [files c]). \<forall>p. p \<noteq> name \<longrightarrow> s p = files b p"
    unfolding touches_only_def by blast
  have "past c = past a @ (xs @ ys)" using xs(1) ys(1) by simp
  moreover have "\<forall>s \<in> set ((xs @ ys) @ [files c]). \<forall>p. p \<noteq> name \<longrightarrow> s p = files a p"
  proof (intro ballI allI impI)
    fix s p assume s: "s \<in> set ((xs @ ys) @ [files c])" and p: "p \<noteq> name"
    from xs(2) p have b: "files b p = files a p" by simp
    from s consider "s \<in> set xs" | "s \<in> set (ys @ [files c])" by auto
    then show "s p = files a p"
    proof cases
      case 1 with xs(2) p show ?thesis by auto
    next
      case 2
      with ys(2) p have "s p = files b p" by blast
      with b show ?thesis by simp
    qed
  qed
  ultimately show ?thesis unfolding touches_only_def by blast
qed

lemma touches_only_update:
  "touches_only name w (fs_update ((files w)(name := v)) w)"
  by (simp add: touches_only_def fs_update_def)

lemma touches_only_Create:
  "os_Create env name w = Some w' \<Longrightarrow> touches_only name w w'"
  by (auto simp: os_Create_def touches_only_update split: if_splits)

lemma touches_only_Write:
  "file_Write name data free w = (ok, w') \<Longrightarrow> touches_only name w w'"
  by (auto simp: file_Write_def Let_def touches_only_update)

lemma touches_only_Copy:
  "io_Copy progress name cs fails free w = (e, w') \<Longrightarrow> touches_only name w w'"
proof (induction cs arbitrary: free w)
  case Nil
  then show ?case by (auto intro: touches_only_refl)
next
  case (Cons c cs)
  obtain ok w1 where wr: "file_Write name c free (w\<lparr>streamed := streamed w + length c\<rparr>) = (ok, w1)"
    by (cases "file_Write name c free (w\<lparr>streamed := streamed w + length c\<rparr>)")
  have a: "touches_only name w (w\<lparr>streamed := streamed w + length c\<rparr>)"
    by (rule touches_only_refl) simp_all
  note b = touches_only_trans [OF a touches_only_Write [OF wr]]
  show ?case
  proof (cases ok)
    case False
    with wr Cons.prems have "w' = w1" by simp
    with b show ?thesis by simp
  next
    case True
    define w2 where "w2 = (if progress then w1\<lparr>bar := bar w1 @ [Add (length c)]\<rparr> else w1)"
    have c: "touches_only name w1 w2"
      by (rule touches_only_refl) (simp_all add: w2_def)
    from True wr Cons.prems
    have "io_Copy progress name cs fails (map_option (\<lambda>k. k - length c) free) w2 = (e, w')"
      by (simp add: w2_def)
    from touches_only_trans [OF touches_only_trans [OF b c] Cons.IH [OF this]]
    show ?thesis .
  qed
qed

lemma Write_content:
  "file_Write name data free w = (True, w') \<Longrightarrow> files w name = Some (File c t) \<Longrightarrow>
   \<exists>t'. files w' name = Some (File (c @ data) t')"
  by (auto simp: file_Write_def Let_def fs_update_def split: option.splits)

lemma Copy_content:
  "io_Copy progress name cs fails free w = (None, w') \<Longrightarrow> files w name = Some (File c t) \<Longrightarrow>
   \<not> fails \<and> (\<exists>t'. files w' name = Some (File (c @ concat cs) t'))"
proof (induction cs arbitrary: free w c t)
  case Nil
  then show ?case by (auto split: if_splits)
next
  case (Cons d cs)
  obtain ok w1 where wr: "file_Write name d free (w\<lparr>streamed := streamed w + length d\<rparr>) = (ok, w1)"
    by (cases "file_Write name d free (w\<lparr>streamed := streamed w + length d\<rparr>)")
  with Cons.prems(1) have ok: ok by (cases ok) simp_all
  from Cons.prems(2) have "files (w\<lparr>streamed := streamed w + length d\<rparr>) name = Some (File c t)"
    by simp
  from Write_content [OF wr [unfolded ok [THEN eqTrueI]] this]
  obtain t1 where t1: "files w1 name = Some (File (c @ d) t1)" by blast
  define w2 where "w2 = (if progress then w1\<lparr>bar := bar w1 @ [Add (length d)]\<rparr> else w1)"
  from t1 have t2: "files w2 name = Some (File (c @ d) t1)" by (simp add: w2_def)
  from ok wr Cons.prems(1)
  have "io_Copy progress name cs fails (map_option (\<lambda>k. k - length d) free) w2 = (None, w')"
    by (simp add: w2_def)
  from Cons.IH [OF this t2] show ?case by simp
qed

lemma touches_only_during:
  assumes "touches_only name w w'"
  shows "\<forall>s \<in> set (during w w' @ [files w']). \<forall>p. p \<noteq> name \<longrightarrow> s p = files w p"
  using assms unfolding touches_only_def during_def by auto

lemma during_past: "past w1 = past w \<Longrightarrow> during w1 w' = during w w'"
  by (simp add: during_def)

lemma bar_Finish_keeps [simp]:
  "files (bar_Finish opts w) = files w" "past (bar_Finish opts w) = past w"
  by (simp_all add: bar_Finish_def)

lemma Create_content:
  "os_Create env name w = Some w' \<Longrightarrow> files w' name = Some (File [] (clock w))"
  by (auto simp: os_Create_def fs_update_def split: if_splits)

lemma Rename_files:
  "os_Rename env old new w = Some w' \<Longrightarrow>
   files w' = (files w)(old := None, new := files w old) \<and> past w' = past w @ [files w]"
  by (auto simp: os_Rename_def fs_update_def split: if_splits)

lemma download_atomic:
  assumes run: "download env opts resp dest w = (r, w')" and absent: "\<not> FileExists w dest"
  shows "(\<forall>s \<in> set (during w w'). s dest = None \<and> (\<forall>p. p \<noteq> dest @ ''.download'' \<longrightarrow> s p = files w p)) \<and>
         (\<forall>p. p \<noteq> dest \<and> p \<noteq> dest @ ''.download'' \<longrightarrow> files w' p = files w p) \<and>
         (case r of
            Inl e \<Rightarrow> files w' dest = None
          | Inr p \<Rightarrow> p = dest \<and> \<not> BodyFails resp \<and> files w' (dest @ ''.download'') = None \<and>
              (\<exists>t. files w' dest = Some (File (concat (Body resp)) t)))"
proof -
  define tmp where "tmp = dest @ ''.download''"
  have ne: "dest \<noteq> tmp" by (simp add: tmp_def)
  from absent have none: "files w dest = None" by (simp add: FileExists_def)
  have failing: ?thesis
    if t: "touches_only tmp w w'" and r: "r = Inl e" for e
  proof -
    from touches_only_during [OF t]
    have all: "\<forall>s \<in> set (during w w' @ [files w']). \<forall>p. p \<noteq> tmp \<longrightarrow> s p = files w p" .
    then have "\<forall>s \<in> set (during w w'). s dest = None \<and> (\<forall>p. p \<noteq> tmp \<longrightarrow> s p = files w p)"
      using ne none by auto
    moreover from all have "\<forall>p. p \<noteq> tmp \<longrightarrow> files w' p = files w p" by simp
    ultimately show ?thesis using ne none r by (simp add: tmp_def)
  qed
  show ?thesis
  proof (cases "os_Create env tmp w")
    case None
    with run have "r = Inl (CreateError tmp)" "w' = w"
      by (simp_all add: download_def tmp_def)
    then show ?thesis by (intro failing touches_only_refl) simp_all
  next
    case (Some w1)
    define w2 where "w2 = (if Progress opts then w1\<lparr>bar := bar w1 @ [Start (ContentLength resp)]\<rparr> else w1)"
    obtain e w3 where copy:
      "io_Copy (Progress opts) tmp (Body resp) (BodyFails resp) (disk_free env) w2 = (e, w3)"
      by (cases "io_Copy (Progress opts) tmp (Body resp) (BodyFails resp) (disk_free env) w2")
    have "touches_only tmp w1 w2"
      by (rule touches_only_refl) (simp_all add: w2_def)
    from touches_only_trans [OF touches_only_trans [OF touches_only_Create [OF Some] this]
        touches_only_Copy [OF copy]]
    have t3: "touches_only tmp w w3" .
    have fin: "touches_only tmp w3 (bar_Finish opts w3)"
      by (rule touches_only_refl) simp_all
    show ?thesis
    proof (cases e)
      case (Some err)
      with run \<open>os_Create env tmp w = Some w1\<close> copy
      have "r = Inl err" "w' = bar_Finish opts w3"
        by (simp_all add: download_def tmp_def w2_def Let_def)
      with touches_only_trans [OF t3 fin] show ?thesis by (intro failing) simp_all
    next
      case None
      from Create_content [OF \<open>os_Create env tmp w = Some w1\<close>]
      have "files w2 tmp = Some (File [] (clock w))" by (simp add: w2_def)
      from Copy_content [OF copy [unfolded None] this]
      obtain t where whole: "\<not> BodyFails resp" "files w3 tmp = Some (File (concat (Body resp)) t)"
        by auto
      show ?thesis
      proof (cases "os_Rename env tmp dest w3")
        case None
        with run \<open>os_Create env tmp w = Some w1\<close> copy \<open>e = None\<close>
        have "r = Inl (RenameError tmp dest)" "w' = bar_Finish opts w3"
          by (simp_all add: download_def tmp_def w2_def Let_def)
        with touches_only_trans [OF t3 fin] show ?thesis by (intro failing) simp_all
      next
        case (Some w4)
        with run \<open>os_Create env tmp w = Some w1\<close> copy \<open>e = None\<close>
        have r: "r = Inr dest" and w': "w' = bar_Finish opts w4"
          by (simp_all add: download_def tmp_def w2_def Let_def)
        from Rename_files [OF Some]
        have f4: "files w4 = (files w3)(tmp := None, dest := files w3 tmp)"
          and p4: "past w4 = past w3 @ [files w3]" by simp_all
        from t3 obtain xs where xs: "past w3 = past w @ xs"
          "\<forall>s \<in> set (xs @ [files w3]). \<forall>p. p \<noteq> tmp \<longrightarrow> s p = files w p"
          unfolding touches_only_def by blast
        from xs(1) p4 w' have d: "during w w' = xs @ [files w3]"
          by (simp add: during_def)
        from xs(2) ne none
        have a: "\<forall>s \<in> set (during w w'). s dest = None \<and> (\<forall>p. p \<noteq> tmp \<longrightarrow> s p = files w p)"
          unfolding d by auto
        from xs(2) f4 w'
        have b: "\<forall>p. p \<noteq> dest \<and> p \<noteq> tmp \<longrightarrow> files w' p = files w p"
          by simp
        from f4 w' ne whole(2)
        have c: "files w' tmp = None" "files w' dest = Some (File (concat (Body resp)) t)"
          by simp_all
        from a b c r whole(1) show ?thesis by (simp add: tmp_def)
      qed
    qed
  qed
qed


lemma Create_past:
  "os_Create env name w = Some w' \<Longrightarrow> past w' = past w @ [files w]"
  by (auto simp: os_Create_def fs_update_def split: if_splits)

lemma Write_keeps_file:
  "file_Write name data free w = (ok, w') \<Longrightarrow>
   past w' = past w @ [files w] \<and> (\<exists>c t. files w' name = Some (File c t))"
  by (auto simp: file_Write_def Let_def fs_update_def)

lemma Copy_keeps_file:
  "io_Copy progress name cs fails free w = (e, w') \<Longrightarrow> files w name = Some (File c t) \<Longrightarrow>
   \<exists>xs. past w' = past w @ xs \<and> (\<forall>s \<in> set (xs @ [files w']). \<exists>c t. s name = Some (File c t))"
proof (induction cs arbitrary: free w c t)
  case Nil
  then show ?case by auto
next
  case (Cons d cs)
  obtain ok w1 where wr: "file_Write name d free (w\<lparr>streamed := streamed w + length d\<rparr>) = (ok, w1)"
    by (cases "file_Write name d free (w\<lparr>streamed := streamed w + length d\<rparr>)")
  from Write_keeps_file [OF wr] obtain c1 t1
    where p1: "past w1 = past w @ [files w]" and f1: "files w1 name = Some (File c1 t1)"
    by auto
  show ?case
  proof (cases ok)
    case False
    with wr Cons.prems(1) have "w' = w1" by simp
    with p1 f1 Cons.prems(2) show ?thesis by simp
  next
    case True
    define w2 where "w2 = (if progress then w1\<lparr>bar := bar w1 @ [Add (length d)]\<rparr> else w1)"
    from True wr Cons.prems(1)
    have run: "io_Copy progress name cs fails (map_option (\<lambda>k. k - length d) free) w2 = (e, w')"
      by (simp add: w2_def)
    from f1 have "files w2 name = Some (File c1 t1)" by (simp add: w2_def)
    from Cons.IH [OF run this] obtain ys where ys: "past w' = past w2 @ ys"
      "\<forall>s \<in> set (ys @ [files w']). \<exists>c t. s name = Some (File c t)" by blast
    from ys(1) p1 have "past w' = past w @ (files w # ys)" by (simp add: w2_def)
    moreover from ys(2) Cons.prems(2)
    have "\<forall>s \<in> set ((files w # ys) @ [files w']). \<exists>c t. s name = Some (File c t)" by simp
    ultimately show ?thesis by blast
  qed
qed

lemma download_temporary:
  assumes run: "download env opts resp dest w = (r, w')"
  shows "\<forall>s \<in> set (tl (during w w')). \<exists>c t. s (dest @ ''.download'') = Some (File c t)"
proof (cases "os_Create env (dest @ ''.download'') w")
  case None
  with run have "w' = w" by (simp add: download_def)
  then show ?thesis by (simp add: during_def)
next
  case (Some w1)
  define tmp where "tmp = dest @ ''.download''"
  define w2 where "w2 = (if Progress opts then w1\<lparr>bar := bar w1 @ [Start (ContentLength resp)]\<rparr> else w1)"
  obtain e w3 where copy:
    "io_Copy (Progress opts) tmp (Body resp) (BodyFails resp) (disk_free env) w2 = (e, w3)"
    by (cases "io_Copy (Progress opts) tmp (Body resp) (BodyFails resp) (disk_free env) w2")
  from Create_content [OF Some] have f2: "files w2 tmp = Some (File [] (clock w))"
    by (simp add: w2_def tmp_def)
  from Create_past [OF Some] have p2: "past w2 = past w @ [files w]"
    by (simp add: w2_def)
  from Copy_keeps_file [OF copy f2] obtain ys where ys: "past w3 = past w2 @ ys"
    "\<forall>s \<in> set (ys @ [files w3]). \<exists>c t. s tmp = Some (File c t)" by blast
  from ys(1) p2 have p3: "past w3 = past w @ files w # ys" by simp
  consider (stay) "w' = bar_Finish opts w3"
    | (move) w4 where "os_Rename env tmp dest w3 = Some w4" "w' = bar_Finish opts w4"
    using run Some copy
    by (auto simp: download_def tmp_def w2_def Let_def split: option.splits)
  then show ?thesis
  proof cases
    case stay
    with p3 have "tl (during w w') = ys" by (simp add: during_def)
    with ys(2) show ?thesis by (simp add: tmp_def)
  next
    case move
    from Rename_files [OF move(1)] move(2) p3
    have "tl (during w w') = ys @ [files w3]" by (simp add: during_def)
    with ys(2) show ?thesis by (simp add: tmp_def)
  qed
qed

section \<open>The resolver\<close>

text \<open>
  C7. A resource that names an existing local file is returned as it is: the call succeeds
  whatever the options and whatever the URL parser would say of the string, and the world
  it leaves is the world it found, so no request was sent and no file touched. The test
  comes first in \<^verbatim>\<open>Fetch\<close>, before the options and before \<^verbatim>\<open>url.Parse\<close>.
\<close>

theorem Fetch_local_file:
  "FileExists w p \<Longrightarrow> Fetch env p options w = (Inr p, w)"
  by (simp add: Fetch_def)

text \<open>The file \<^verbatim>\<open>/tmp/100%.exe\<close> of the sample world, whose name does not parse as a URL.\<close>

theorem Fetch_local_file_witness:
  "FileExists sample_world ''/tmp/100%.exe'' \<and>
   url_Parse sample_env ''/tmp/100%.exe'' = None \<and>
   Fetch sample_env ''/tmp/100%.exe'' None sample_world = (Inr ''/tmp/100%.exe'', sample_world)"
proof -
  have h: "FileExists sample_world ''/tmp/100%.exe''"
    by (rule sample_present)
  from h sample_parses(1) Fetch_local_file [OF h, of sample_env None] show ?thesis by simp
qed

text \<open>
  C9. \<^verbatim>\<open>Fetch\<close> with nil options: when the resource is not an existing local file the call
  fails with the missing-destination error (the nil pointer was replaced by empty options,
  whose destination is empty); when it is, the call succeeds with the resource. Either way
  the result is one of the two regular outcomes of the function and the world is unchanged.
\<close>

theorem Fetch_nil_options:
  "(\<not> FileExists w resource \<longrightarrow> Fetch env resource None w = (Inl MissingDestination, w)) \<and>
   (FileExists w resource \<longrightarrow> Fetch env resource None w = (Inr resource, w))"
  by (simp add: Fetch_def)

theorem Fetch_nil_options_witness:
  "\<not> FileExists sample_world ''http://a/x.exe'' \<and>
   Fetch sample_env ''http://a/x.exe'' None sample_world = (Inl MissingDestination, sample_world) \<and>
   FileExists sample_world ''/tmp/setup.exe'' \<and>
   Fetch sample_env ''/tmp/setup.exe'' None sample_world = (Inr ''/tmp/setup.exe'', sample_world)"
  using sample_absent(3) sample_present(2)
    Fetch_nil_options [of sample_world "''http://a/x.exe''" sample_env]
    Fetch_nil_options [of sample_world "''/tmp/setup.exe''" sample_env]
  by simp

text \<open>
  C5, as the code has it. A fetch of a resource that is not an existing local file, with nil
  options or an empty destination, fails with the missing-destination error and leaves the
  world as it was: no request is sent and the URL is not even parsed. The test is made by
  \<^verbatim>\<open>Fetch\<close>, for every scheme.
\<close>

theorem Fetch_missing_destination:
  "\<not> FileExists w resource \<Longrightarrow>
   (case options of None \<Rightarrow> True | Some opts \<Rightarrow> Destination opts = []) \<Longrightarrow>
   Fetch env resource options w = (Inl MissingDestination, w)"
  by (cases options) (simp_all add: Fetch_def)

theorem Fetch_missing_destination_witness:
  "\<not> FileExists sample_world ''http://a/x.exe'' \<and>
   Fetch sample_env ''http://a/x.exe'' (Some \<lparr>Destination = [], Progress = True\<rparr>) sample_world
     = (Inl MissingDestination, sample_world)"
  using sample_absent(3)
    Fetch_missing_destination [OF sample_absent(3),
      of "Some \<lparr>Destination = [], Progress = True\<rparr>" sample_env]
  by simp

text \<open>
  C5 as stated fails in its last part: the downloader does not test the destination. Called
  with an empty destination, \<^verbatim>\<open>fetchHTTP\<close> sends its request; here the server answers 404 and
  the error is the one of the status, after a request went out.
\<close>

theorem fetchHTTP_ignores_destination:
  "fetchHTTP sample_env (sample_url ''gone'' ''/x.exe'')
      (Some \<lparr>Destination = [], Progress = False\<rparr>) sample_world =
    (Inl (UnexpectedStatus 404 (sample_url ''gone'' ''/x.exe'')),
     sample_world\<lparr>sent := [sample_url ''gone'' ''/x.exe'']\<rparr>)"
  by (simp add: fetchHTTP_def sample_requests client_Do_def client_loop.simps
      sample_RoundTrip_def sample_url_sel)

text \<open>
  C6, as the code has it. A resource that is not an existing local file and parses as a URL
  of scheme \<^verbatim>\<open>file\<close> resolves to the path component of that URL, with no look at the file
  system and no request, when the options carry a destination; with nil options or an empty
  destination the call fails with the missing-destination error. The world is unchanged
  either way.
\<close>

theorem Fetch_file_scheme:
  assumes "\<not> FileExists w resource"
    and "url_Parse env resource = Some u"
    and "Scheme u = ''file''"
  shows "Fetch env resource options w =
     (if (case options of None \<Rightarrow> True | Some opts \<Rightarrow> Destination opts = [])
      then (Inl MissingDestination, w) else (Inr (Path u), w))"
  using assms by (cases options) (simp_all add: Fetch_def)

text \<open>\<^verbatim>\<open>file:///tmp/x\<close> names nothing in the sample world and resolves to \<^verbatim>\<open>/tmp/x\<close>.\<close>

theorem Fetch_file_scheme_witness:
  "\<not> FileExists sample_world ''file:///tmp/x'' \<and>
   url_Parse sample_env ''file:///tmp/x'' = Some \<lparr>Scheme = ''file'', Host = [], Path = ''/tmp/x''\<rparr> \<and>
   files sample_world ''/tmp/x'' = None \<and>
   Fetch sample_env ''file:///tmp/x'' (Some \<lparr>Destination = ''/tmp'', Progress = False\<rparr>) sample_world
     = (Inr ''/tmp/x'', sample_world) \<and>
   Fetch sample_env ''file:///tmp/x'' (Some \<lparr>Destination = [], Progress = False\<rparr>) sample_world
     = (Inl MissingDestination, sample_world)"
proof -
  have scheme: "Scheme \<lparr>Scheme = ''file'', Host = [], Path = ''/tmp/x''\<rparr> = ''file''"
    by simp
  note hit = Fetch_file_scheme [OF sample_absent(1) sample_parses(3) scheme,
      of "Some \<lparr>Destination = ''/tmp'', Progress = False\<rparr>"]
  note miss = Fetch_file_scheme [OF sample_absent(1) sample_parses(3) scheme,
      of "Some \<lparr>Destination = [], Progress = False\<rparr>"]
  from hit miss sample_absent(1) sample_parses(3) show ?thesis
    by (simp add: sample_world_sel sample_files_def)
qed

text \<open>
  C6 as stated fails: \<^verbatim>\<open>file:///tmp/x\<close> with nil options is refused for its missing
  destination, because the destination is tested before the scheme is looked at.
\<close>

theorem Fetch_file_scheme_needs_destination:
  "\<not> FileExists sample_world ''file:///tmp/x'' \<and>
   url_Parse sample_env ''file:///tmp/x'' = Some \<lparr>Scheme = ''file'', Host = [], Path = ''/tmp/x''\<rparr> \<and>
   Fetch sample_env ''file:///tmp/x'' None sample_world = (Inl MissingDestination, sample_world)"
  by (simp add: Fetch_def sample_absent sample_parses)

text \<open>
  C10, as the code has it. A resource that is not an existing local file, parses as a URL
  and has no scheme is refused with the unknown-scheme error naming the empty scheme, when
  the options carry a destination.
\<close>

theorem Fetch_no_scheme:
  "\<not> FileExists w resource \<Longrightarrow> Destination opts \<noteq> [] \<Longrightarrow>
   url_Parse env resource = Some u \<Longrightarrow> Scheme u = [] \<Longrightarrow>
   Fetch env resource (Some opts) w = (Inl (UnknownScheme []), w)"
  by (simp add: Fetch_def)

theorem Fetch_no_scheme_witness:
  "\<not> FileExists sample_world ''foo/bar'' \<and>
   url_Parse sample_env ''foo/bar'' = Some \<lparr>Scheme = [], Host = [], Path = ''foo/bar''\<rparr> \<and>
   Fetch sample_env ''foo/bar'' (Some \<lparr>Destination = ''/tmp'', Progress = False\<rparr>) sample_world
     = (Inl (UnknownScheme []), sample_world)"
  using sample_absent(2) sample_parses(2)
    Fetch_no_scheme [OF sample_absent(2) _ sample_parses(2),
      of "\<lparr>Destination = ''/tmp'', Progress = False\<rparr>"]
  by simp

text \<open>
  C10 as stated fails: \<^verbatim>\<open>foo/bar\<close> with nil options is refused for its missing destination,
  not for its scheme.
\<close>

theorem Fetch_no_scheme_needs_destination:
  "\<not> FileExists sample_world ''foo/bar'' \<and>
   url_Parse sample_env ''foo/bar'' = Some \<lparr>Scheme = [], Host = [], Path = ''foo/bar''\<rparr> \<and>
   Fetch sample_env ''foo/bar'' None sample_world = (Inl MissingDestination, sample_world)"
  by (simp add: Fetch_def sample_absent sample_parses)

section \<open>The downloader\<close>

text \<open>
  C3. When the response that ends the redirect chain has a status code other than 200 (201,
  206, 404, 500, ...), \<^verbatim>\<open>fetchHTTP\<close> fails with the error that carries that status code and
  the URL it was asked for, and it has touched no file: the file system is the one of the
  caller, no intermediate state was ever written, the clock of the file system has not moved,
  and no body byte was read.
\<close>

theorem fetchHTTP_bad_status:
  assumes "http_NewRequest env resource = Some req"
    and "client_Do env req w = (Inr (resp, lastLocation), w1)"
    and "StatusCode resp \<noteq> 200"
  shows "fetchHTTP env resource options w = (Inl (UnexpectedStatus (StatusCode resp) resource), w1) \<and>
         files w1 = files w \<and> past w1 = past w \<and> clock w1 = clock w \<and> streamed w1 = streamed w"
  using assms client_Do_keeps [OF assms(2)] by (simp add: fetchHTTP_def)

text \<open>The sample host \<^verbatim>\<open>part\<close> answers 206.\<close>

theorem fetchHTTP_bad_status_witness:
  "http_NewRequest sample_env (sample_url ''part'' ''/x.exe'') = Some (sample_url ''part'' ''/x.exe'') \<and>
   client_Do sample_env (sample_url ''part'' ''/x.exe'') sample_world =
     (Inr (\<lparr>StatusCode = 206, ContentLength = 2, Body = [''he''], BodyFails = False\<rparr>, None),
      sample_world\<lparr>sent := [sample_url ''part'' ''/x.exe'']\<rparr>) \<and>
   fetchHTTP sample_env (sample_url ''part'' ''/x.exe'')
       (Some \<lparr>Destination = ''/tmp'', Progress = True\<rparr>) sample_world =
     (Inl (UnexpectedStatus 206 (sample_url ''part'' ''/x.exe'')),
      sample_world\<lparr>sent := [sample_url ''part'' ''/x.exe'']\<rparr>) \<and>
   files (sample_world\<lparr>sent := [sample_url ''part'' ''/x.exe'']\<rparr>) = files sample_world \<and>
   streamed (sample_world\<lparr>sent := [sample_url ''part'' ''/x.exe'']\<rparr>) = streamed sample_world"
  using sample_requests(4) sample_Do_part
    fetchHTTP_bad_status [OF sample_requests(4) sample_Do_part,
      of "Some \<lparr>Destination = ''/tmp'', Progress = True\<rparr>"]
  by simp

text \<open>
  C4. When the response is a 200 and something already exists at the final destination path,
  \<^verbatim>\<open>fetchHTTP\<close> returns that path and has written nothing: the file system is the one of the
  caller (so the content and the modification time of the file are what they were), no
  intermediate state was written, the clock has not moved, and no body byte was read.
\<close>

theorem fetchHTTP_existing_file:
  assumes "http_NewRequest env resource = Some req"
    and "client_Do env req w = (Inr (resp, lastLocation), w1)"
    and "StatusCode resp = 200"
    and "dest = final_destination env w opts resource lastLocation"
    and "FileExists w dest"
  shows "fetchHTTP env resource (Some opts) w = (Inr dest, w1) \<and>
         files w1 = files w \<and> past w1 = past w \<and> clock w1 = clock w \<and> streamed w1 = streamed w"
proof -
  from client_Do_keeps [OF assms(2)]
  have keeps: "files w1 = files w" "past w1 = past w" "clock w1 = clock w" "streamed w1 = streamed w"
    by simp_all
  have same: "final_destination env w1 opts resource lastLocation = dest"
    unfolding assms(4) final_destination_files [OF keeps(1)] ..
  from assms(5) have "FileExists w1 dest"
    unfolding FileExists_files [OF keeps(1)] .
  with assms(1-3) same have "fetchHTTP env resource (Some opts) w = (Inr dest, w1)"
    by (simp add: fetchHTTP_def)
  with keeps show ?thesis by simp
qed

text \<open>\<^verbatim>\<open>http://b/setup.exe\<close> into \<^verbatim>\<open>/tmp\<close>, which holds \<^verbatim>\<open>setup.exe\<close> already.\<close>

theorem fetchHTTP_existing_file_witness:
  "http_NewRequest sample_env (sample_url ''b'' ''/setup.exe'') = Some (sample_url ''b'' ''/setup.exe'') \<and>
   FileExists sample_world ''/tmp/setup.exe'' \<and>
   fetchHTTP sample_env (sample_url ''b'' ''/setup.exe'')
       (Some \<lparr>Destination = ''/tmp'', Progress = True\<rparr>) sample_world =
     (Inr ''/tmp/setup.exe'', sample_world\<lparr>sent := [sample_url ''b'' ''/setup.exe'']\<rparr>) \<and>
   files (sample_world\<lparr>sent := [sample_url ''b'' ''/setup.exe'']\<rparr>) ''/tmp/setup.exe'' = Some (File ''MZ'' 3)"
  using sample_requests(2) sample_present(2)
    fetchHTTP_existing_file [OF sample_requests(2) sample_Do_b _ sample_dest(1) [symmetric] sample_present(2)]
  by (simp add: sample_world_def sample_files_def)

text \<open>
  C8. When the redirect chain of the request reaches ten redirects, \<^verbatim>\<open>fetchHTTP\<close> fails with
  the too-many-redirects error and has touched no file. When the chain is shorter and ends in
  a response, the client returns that response and \<^verbatim>\<open>lastLocation\<close> is the last location of
  the chain, or nil when there was no redirect; the requests sent are the original one and
  those of the chain.
\<close>

theorem fetchHTTP_redirect_cap:
  assumes "http_NewRequest env resource = Some req"
    and "chain = redirect_targets env 10 (sent w) req"
  shows "(length chain = 10 \<longrightarrow>
            (\<exists>w'. fetchHTTP env resource options w = (Inl TooManyRedirects, w') \<and>
                  files w' = files w \<and> past w' = past w)) \<and>
         (length chain < 10 \<longrightarrow>
            (\<forall>resp. RoundTrip env (sent w @ butlast (req # chain)) (last (req # chain)) = Terminal resp \<longrightarrow>
               client_Do env req w =
                 (Inr (resp, if chain = [] then None else Some (last chain)),
                  w\<lparr>sent := sent w @ req # chain\<rparr>)))"
proof (intro conjI impI allI)
  assume "length chain = 10"
  with assms(2) have "length (redirect_targets env 10 (sent w) req) = 10" by simp
  from client_loop_too_many [OF _ _ this, of "[]" None]
  obtain w' where run: "client_Do env req w = (Inl TooManyRedirects, w')"
    by (auto simp: client_Do_def)
  from client_Do_keeps [OF run] have "files w' = files w" "past w' = past w" by simp_all
  with run assms(1)
  show "\<exists>w'. fetchHTTP env resource options w = (Inl TooManyRedirects, w') \<and>
          files w' = files w \<and> past w' = past w"
    by (simp add: fetchHTTP_def)
next
  fix resp
  assume "length chain < 10"
    and "RoundTrip env (sent w @ butlast (req # chain)) (last (req # chain)) = Terminal resp"
  with assms(2) show "client_Do env req w =
      (Inr (resp, if chain = [] then None else Some (last chain)), w\<lparr>sent := sent w @ req # chain\<rparr>)"
    unfolding client_Do_def by (intro client_loop_terminal [where m = 10]) simp_all
qed

text \<open>The host \<^verbatim>\<open>loop\<close> redirects for ever; the host \<^verbatim>\<open>a\<close> redirects once.\<close>

theorem fetchHTTP_redirect_cap_witness:
  "http_NewRequest sample_env (sample_url ''loop'' ''/x.exe'') = Some (sample_url ''loop'' ''/x.exe'') \<and>
   length (redirect_targets sample_env 10 (sent sample_world) (sample_url ''loop'' ''/x.exe'')) = 10 \<and>
   fst (fetchHTTP sample_env (sample_url ''loop'' ''/x.exe'')
          (Some \<lparr>Destination = ''/tmp'', Progress = True\<rparr>) sample_world) = Inl TooManyRedirects \<and>
   files (snd (fetchHTTP sample_env (sample_url ''loop'' ''/x.exe'')
          (Some \<lparr>Destination = ''/tmp'', Progress = True\<rparr>) sample_world)) = files sample_world \<and>
   redirect_targets sample_env 10 (sent sample_world) (sample_url ''a'' ''/x.exe'') = [sample_url ''b'' ''/y.exe''] \<and>
   client_Do sample_env (sample_url ''a'' ''/x.exe'') sample_world =
     (Inr (\<lparr>StatusCode = 200, ContentLength = 5, Body = [''he'', ''llo''], BodyFails = False\<rparr>,
           Some (sample_url ''b'' ''/y.exe'')),
      sample_world\<lparr>sent := [sample_url ''a'' ''/x.exe'', sample_url ''b'' ''/y.exe'']\<rparr>)"
  using sample_requests(3) sample_chain_loop sample_chain_a
    fetchHTTP_redirect_cap [OF sample_requests(3) refl,
      of sample_world "Some \<lparr>Destination = ''/tmp'', Progress = True\<rparr>"]
    fetchHTTP_redirect_cap [OF sample_requests(1) refl,
      of sample_world "Some \<lparr>Destination = ''/tmp'', Progress = True\<rparr>"]
  by (auto simp: sample_RoundTrip_def sample_url_def)

text \<open>
  C2. When the destination is an existing directory and the fetch succeeds, the path returned
  is the directory joined with the base name of the path of the last location of the redirect
  chain, and with the base name of the path of the requested URL when the chain is empty.
\<close>

theorem fetchHTTP_directory_name:
  assumes "http_NewRequest env resource = Some req"
    and "FileIsDir w (Destination opts)"
    and "fetchHTTP env resource (Some opts) w = (Inr p, w')"
    and "chain = redirect_targets env 10 (sent w) req"
  shows "p = filepath_Join env (Destination opts)
               (filepath_Base env (Path (if chain = [] then resource else last chain)))"
proof -
  from assms(1,3) obtain resp lastLocation w1
    where run: "client_Do env req w = (Inr (resp, lastLocation), w1)"
    by (auto simp: fetchHTTP_def split: prod.splits sum.splits)
  from client_Do_keeps [OF run] have files: "files w1 = files w" by simp
  from run have "client_loop env req [] None w = (Inr (resp, lastLocation), w1)"
    by (simp only: client_Do_def)
  from client_loop_result [OF _ _ this assms(4)]
  have last: "lastLocation = (if chain = [] then None else Some (last chain))"
    by simp
  from assms(1,3) run have "p = final_destination env w1 opts resource lastLocation"
    by (auto simp: fetchHTTP_def Let_def split: if_splits dest: download_result)
  then have "p = final_destination env w opts resource lastLocation"
    unfolding final_destination_files [OF files] .
  with assms(2) last show ?thesis
    by (simp add: final_destination_def)
qed

text \<open>The example of the specification: \<^verbatim>\<open>http://a/x.exe\<close> redirects to \<^verbatim>\<open>http://b/y.exe\<close>, and
  the file fetched into \<^verbatim>\<open>/tmp\<close> is \<^verbatim>\<open>/tmp/y.exe\<close>.\<close>

theorem fetchHTTP_directory_name_witness:
  "http_NewRequest sample_env (sample_url ''a'' ''/x.exe'') = Some (sample_url ''a'' ''/x.exe'') \<and>
   FileIsDir sample_world ''/tmp'' \<and>
   redirect_targets sample_env 10 (sent sample_world) (sample_url ''a'' ''/x.exe'') = [sample_url ''b'' ''/y.exe''] \<and>
   fst (fetchHTTP sample_env (sample_url ''a'' ''/x.exe'')
         (Some \<lparr>Destination = ''/tmp'', Progress = True\<rparr>) sample_world) = Inr ''/tmp/y.exe'' \<and>
   ''/tmp/y.exe'' = filepath_Join sample_env ''/tmp''
      (filepath_Base sample_env (Path (sample_url ''b'' ''/y.exe'')))"
proof -
  have dir: "FileIsDir sample_world (Destination \<lparr>Destination = ''/tmp'', Progress = True\<rparr>)"
    by (simp add: sample_isdir)
  have run: "fetchHTTP sample_env (sample_url ''a'' ''/x.exe'')
      (Some \<lparr>Destination = ''/tmp'', Progress = True\<rparr>) sample_world =
    (Inr ''/tmp/y.exe'',
     snd (fetchHTTP sample_env (sample_url ''a'' ''/x.exe'')
         (Some \<lparr>Destination = ''/tmp'', Progress = True\<rparr>) sample_world))"
    using sample_run_a by (simp add: prod_eq_iff)
  note fetchHTTP_directory_name [OF sample_requests(1) dir run refl]
  with sample_requests(1) sample_isdir sample_chain_a sample_run_a show ?thesis by simp
qed

text \<open>
  C1. Take a fetch whose request ends in a 200 response and whose final destination path
  \<open>dest\<close> names nothing yet, so that the body is streamed. Once the temporary file is
  created, it exists at \<open>dest.download\<close> at every moment before the last change of the file
  system. At every such moment nothing exists at \<open>dest\<close>, and the file system differs from
  the one of the caller at \<open>dest.download\<close> only. At the end it differs at most at \<open>dest\<close>
  and \<open>dest.download\<close>. When the call fails, for whatever reason (the file cannot be
  created, a read from the network or a write to the disk fails, the rename fails), nothing
  exists at \<open>dest\<close>. When it succeeds, the path returned is \<open>dest\<close>, the body was read to
  its end without error, the file at \<open>dest\<close> holds all of it, and the temporary file is gone.
\<close>

theorem fetchHTTP_atomic:
  assumes "http_NewRequest env resource = Some req"
    and "client_Do env req w = (Inr (resp, lastLocation), w1)"
    and "StatusCode resp = 200"
    and "dest = final_destination env w opts resource lastLocation"
    and "\<not> FileExists w dest"
    and "fetchHTTP env resource (Some opts) w = (r, w')"
  shows "(\<forall>s \<in> set (tl (during w w')). \<exists>c t. s (dest @ ''.download'') = Some (File c t)) \<and>
         (\<forall>s \<in> set (during w w'). s dest = None \<and> (\<forall>p. p \<noteq> dest @ ''.download'' \<longrightarrow> s p = files w p)) \<and>
         (\<forall>p. p \<noteq> dest \<and> p \<noteq> dest @ ''.download'' \<longrightarrow> files w' p = files w p) \<and>
         (case r of
            Inl e \<Rightarrow> files w' dest = None
          | Inr p \<Rightarrow> p = dest \<and> \<not> BodyFails resp \<and> files w' (dest @ ''.download'') = None \<and>
              (\<exists>t. files w' dest = Some (File (concat (Body resp)) t)))"
proof (rule conjI)
  from client_Do_keeps [OF assms(2)]
  have keeps: "files w1 = files w" "past w1 = past w" by simp_all
  have same: "final_destination env w1 opts resource lastLocation = dest"
    unfolding assms(4) final_destination_files [OF keeps(1)] ..
  from assms(5) have absent: "\<not> FileExists w1 dest"
    unfolding FileExists_files [OF keeps(1)] .
  with assms(1-3,6) same have run: "download env opts resp dest w1 = (r, w')"
    by (simp add: fetchHTTP_def)
  from download_temporary [OF run]
  show "\<forall>s \<in> set (tl (during w w')). \<exists>c t. s (dest @ ''.download'') = Some (File c t)"
    unfolding during_past [OF keeps(2)] .
  from download_atomic [OF run absent]
  show "(\<forall>s \<in> set (during w w'). s dest = None \<and> (\<forall>p. p \<noteq> dest @ ''.download'' \<longrightarrow> s p = files w p)) \<and>
         (\<forall>p. p \<noteq> dest \<and> p \<noteq> dest @ ''.download'' \<longrightarrow> files w' p = files w p) \<and>
         (case r of
            Inl e \<Rightarrow> files w' dest = None
          | Inr p \<Rightarrow> p = dest \<and> \<not> BodyFails resp \<and> files w' (dest @ ''.download'') = None \<and>
              (\<exists>t. files w' dest = Some (File (concat (Body resp)) t)))"
    unfolding during_past [OF keeps(2)] keeps(1) .
qed

text \<open>
  The disk of \<open>full_env\<close> is full after three of the five bytes of \<^verbatim>\<open>http://b/y.exe\<close>: the
  fetch fails, \<^verbatim>\<open>/tmp/y.exe\<close> never existed, and \<^verbatim>\<open>/tmp/y.exe.download\<close> is left with three
  bytes.
\<close>

theorem fetchHTTP_atomic_witness:
  "http_NewRequest full_env (sample_url ''a'' ''/x.exe'') = Some (sample_url ''a'' ''/x.exe'') \<and>
   \<not> FileExists sample_world ''/tmp/y.exe'' \<and>
   fst (fetchHTTP full_env (sample_url ''a'' ''/x.exe'')
         (Some \<lparr>Destination = ''/tmp'', Progress = True\<rparr>) sample_world) = Inl WriteError \<and>
   files (snd (fetchHTTP full_env (sample_url ''a'' ''/x.exe'')
         (Some \<lparr>Destination = ''/tmp'', Progress = True\<rparr>) sample_world)) ''/tmp/y.exe'' = None \<and>
   files (snd (fetchHTTP full_env (sample_url ''a'' ''/x.exe'')
         (Some \<lparr>Destination = ''/tmp'', Progress = True\<rparr>) sample_world)) ''/tmp/y.exe.download''
     = Some (File ''hel'' 9) \<and>
   map (\<lambda>s. (s ''/tmp/y.exe'', s ''/tmp/y.exe.download'')) (during sample_world
      (snd (fetchHTTP full_env (sample_url ''a'' ''/x.exe'')
         (Some \<lparr>Destination = ''/tmp'', Progress = True\<rparr>) sample_world)))
     = [(None, None), (None, Some (File [] 7)), (None, Some (File ''he'' 8))]"
proof -
  have status: "StatusCode \<lparr>StatusCode = 200, ContentLength = 5, Body = [''he'', ''llo''], BodyFails = False\<rparr> = 200"
    by simp
  have run: "fetchHTTP full_env (sample_url ''a'' ''/x.exe'')
      (Some \<lparr>Destination = ''/tmp'', Progress = True\<rparr>) sample_world =
    (fst (fetchHTTP full_env (sample_url ''a'' ''/x.exe'')
         (Some \<lparr>Destination = ''/tmp'', Progress = True\<rparr>) sample_world),
     snd (fetchHTTP full_env (sample_url ''a'' ''/x.exe'')
         (Some \<lparr>Destination = ''/tmp'', Progress = True\<rparr>) sample_world))"
    by simp
  note fetchHTTP_atomic [OF full_requests full_Do_a status full_dest [symmetric] sample_absent_y run]
  with full_requests sample_absent_y full_run_a show ?thesis by simp
qed

end
